theory Spec2Isabelle
  imports Main "HOL-Library.Sublist"
begin

section \<open>Text primitives of the host language\<close>

text \<open>
  Python strings are modelled as \<^typ>\<open>string\<close>; one \<^typ>\<open>char\<close> stands for one code point
  below 256, so \<open>len\<close> is \<^const>\<open>length\<close>. The functions of this section model the
  built-in string operations the repository calls: \<open>str.strip\<close>, \<open>str.split\<close> on the
  paragraph separator, the substring test \<open>in\<close>, and decimal rendering of integers.
\<close>

definition isspace :: "char \<Rightarrow> bool" where
  "isspace c = (of_char c \<in> {9, 10, 11, 12, 13, 28, 29, 30, 31, 32, 133, 160 :: nat})"

definition lstrip :: "string \<Rightarrow> string" where
  "lstrip s = dropWhile isspace s"

definition rstrip :: "string \<Rightarrow> string" where
  "rstrip s = rev (dropWhile isspace (rev s))"

definition strip :: "string \<Rightarrow> string" where
  "strip s = rstrip (lstrip s)"

text \<open>
  \<open>partition_sub pat text\<close> cuts \<open>text\<close> at the leftmost occurrence of \<open>pat\<close> and
  returns what stands before and after it; \<open>None\<close> when \<open>pat\<close> does not occur.
\<close>

fun partition_sub :: "string \<Rightarrow> string \<Rightarrow> (string \<times> string) option" where
  "partition_sub pat [] = (if pat = [] then Some ([], []) else None)"
| "partition_sub pat (c # cs) =
     (if prefix pat (c # cs) then Some ([], drop (length pat) (c # cs))
      else (case partition_sub pat cs of
              None \<Rightarrow> None
            | Some (b, a) \<Rightarrow> Some (c # b, a)))"

definition contains :: "string \<Rightarrow> string \<Rightarrow> bool" where
  "contains text pat = (partition_sub pat text \<noteq> None)"

text \<open>\<open>text.split("\n\n")\<close>: non-overlapping separators, left to right; never empty.\<close>

fun split_paragraphs :: "string \<Rightarrow> string list" where
  "split_paragraphs [] = [[]]"
| "split_paragraphs [a] = [[a]]"
| "split_paragraphs (a # b # cs) =
     (if a = CHR 0x0A \<and> b = CHR 0x0A then [] # split_paragraphs cs
      else (case split_paragraphs (b # cs) of
              [] \<Rightarrow> [[a]]
            | p # ps \<Rightarrow> (a # p) # ps))"

definition digit_char :: "nat \<Rightarrow> char" where
  "digit_char d = char_of (48 + d)"

fun str_of_nat :: "nat \<Rightarrow> string" where
  "str_of_nat n = (if n < 10 then [digit_char n] else str_of_nat (n div 10) @ [digit_char (n mod 10)])"

declare str_of_nat.simps [simp del]

definition str_of_int :: "int \<Rightarrow> string" where
  "str_of_int i = (if i < 0 then CHR ''-'' # str_of_nat (nat (- i)) else str_of_nat (nat i))"

section \<open>Recursive summarizer: chunking\<close>

text \<open>
  \<open>RecursiveSummarizer._split\<close> (summarizer.py). The loop over the paragraphs carries
  the list of finished chunks and the chunk under construction \<open>current\<close>.
\<close>

fun split_loop :: "int \<Rightarrow> string list \<Rightarrow> string list \<times> string \<Rightarrow> string list \<times> string" where
  "split_loop chunk_size [] acc = acc"
| "split_loop chunk_size (para # paragraphs) (chunks, current) =
     (if int (length current) + int (length para) > chunk_size
      then split_loop chunk_size paragraphs
             (if current \<noteq> [] then chunks @ [strip current] else chunks, para)
      else split_loop chunk_size paragraphs
             (chunks, if current \<noteq> [] then current @ ''\<newline>\<newline>'' @ para else para))"

definition summarizer_split :: "int \<Rightarrow> string \<Rightarrow> string list" where
  "summarizer_split chunk_size text =
     (case split_loop chunk_size (split_paragraphs text) ([], []) of
        (chunks, current) \<Rightarrow>
          if strip current \<noteq> [] then chunks @ [strip current] else chunks)"

section \<open>Execution trace and result (base.py)\<close>

text \<open>
  \<open>RLMStep\<close> and \<open>RLMResult\<close>. A step built as \<open>RLMStep(step_type, content)\<close> takes
  the default \<open>depth = 0\<close> of the dataclass; a result built without \<open>success\<close> and
  \<open>error\<close> takes the defaults \<open>True\<close> and \<open>None\<close>.
\<close>

record RLMStep =
  step_type :: string
  content :: string
  depth :: int

definition mk_step :: "string \<Rightarrow> string \<Rightarrow> RLMStep" where
  "mk_step t c = \<lparr>step_type = t, content = c, depth = 0\<rparr>"

record RLMResult =
  query :: string
  context_length :: int
  final_answer :: string
  steps :: "RLMStep list"
  total_llm_calls :: int
  success :: bool
  error :: "string option"

section \<open>Values, exceptions and fragments\<close>

text \<open>
  The values a fragment handles: strings, integers, booleans, \<open>None\<close>, and the host
  objects (functions, classes, the \<open>re\<close> module) that the environment binds under
  fixed names. A host object is opaque: \<open>VHost t s\<close> carries the name \<open>t\<close> of its type
  and the text \<open>s\<close> that \<open>str\<close> gives for it. \<open>py_str\<close> is the built-in \<open>str\<close>
  and \<open>type_name v\<close> is \<open>type(v).__name__\<close>.
\<close>

datatype pyval = VStr string | VInt int | VBool bool | VNone | VHost string string

fun py_str :: "pyval \<Rightarrow> string" where
  "py_str (VStr s) = s"
| "py_str (VInt i) = str_of_int i"
| "py_str (VBool b) = (if b then ''True'' else ''False'')"
| "py_str VNone = ''None''"
| "py_str (VHost t s) = s"

fun type_name :: "pyval \<Rightarrow> string" where
  "type_name (VStr s) = ''str''"
| "type_name (VInt i) = ''int''"
| "type_name (VBool b) = ''bool''"
| "type_name VNone = ''NoneType''"
| "type_name (VHost t s) = t"

text \<open>
  Exceptions: \<open>FinalAnswer answer\<close> is the class of environment.py; \<open>Exn kind msg\<close> is
  any other subclass of \<open>Exception\<close>, with \<open>kind = type(e).__name__\<close> and
  \<open>msg = str(e)\<close>. \<open>FinalAnswer.__init__\<close> does not call the initialiser of
  \<open>Exception\<close>, but the constructor keeps the argument, so \<open>str\<close> of a \<open>FinalAnswer\<close>
  is its answer. Exceptions that are not
  subclasses of \<open>Exception\<close> (\<open>SystemExit\<close>, \<open>KeyboardInterrupt\<close>) are outside the
  model.
\<close>

datatype exn = FinalAnswer string | Exn string string

fun exn_str :: "exn \<Rightarrow> string" where
  "exn_str (FinalAnswer a) = a"
| "exn_str (Exn kind msg) = msg"

text \<open>
  The model client: \<open>generate\<close> takes the client's state and the prompt and gives a reply
  or a failure (kind and message of the exception raised), and the client's next state.
\<close>

datatype reply = Reply string | Failure string string

type_synonym 's generate = "'s \<Rightarrow> string \<Rightarrow> reply \<times> 's"

text \<open>
  The interpreter behind \<open>exec\<close> is not part of the repository. A fragment is modelled
  by the sequence of its interactions with the environment, in the order in which it
  performs them: printing, binding a name, binding a name to the answer of a sub-query, the
  two termination calls, and raising a fault. The statements stand for calls of the
  functions that the environment binds (a fragment that rebinds \<open>FINAL\<close> or catches
  \<open>FinalAnswer\<close> itself is outside the model). Expressions are literals and reads of
  names of the namespace. The translation of the text of a fragment into such a sequence
  is the parameter \<open>parse\<close> of the functions below (a text that is not a program is a
  fragment that raises \<open>SyntaxError\<close>).
\<close>

datatype expr = Lit pyval | Var string

datatype stmt =
    Print "expr list"
  | Assign string expr
  | LlmQuery string expr
  | FINAL expr
  | FINAL_VAR expr
  | Raise string string

type_synonym parser = "string \<Rightarrow> stmt list"

type_synonym namespace = "string \<rightharpoonup> pyval"

section \<open>REPL environment (environment.py)\<close>

record RLMEnvironment =
  env_context :: string
  env_query :: string
  variables :: namespace

definition new_environment :: "string \<Rightarrow> string \<Rightarrow> RLMEnvironment" where
  "new_environment ctx q = \<lparr>env_context = ctx, env_query = q, variables = Map.empty\<rparr>"

text \<open>
  The state a running fragment works on: its namespace and captured standard output, and
  the variables of \<open>RLMEngine.run\<close> that the sub-query callback updates (\<open>steps\<close>,
  \<open>llm_calls\<close>) together with the state of the model client.
\<close>

record 's frame =
  f_namespace :: namespace
  f_stdout :: string
  f_steps :: "RLMStep list"
  f_llm_calls :: int
  f_client :: 's

text \<open>
  The fixed bindings that \<open>execute\<close> puts into every namespace. The texts of the host
  objects depend on the host (they hold addresses) and are abbreviated. The entry
  \<open>__builtins__\<close> that \<open>exec\<close> adds is not a binding of the model; \<open>_save_variables\<close>
  skips it in any case.
\<close>

definition fixed_namespace :: "string \<Rightarrow> string \<Rightarrow> namespace" where
  "fixed_namespace ctx q = map_of
     [(''context'', VStr ctx),
      (''query'', VStr q),
      (''llm_query'', VHost ''method'' ''<bound method RLMEnvironment._llm_query>''),
      (''FINAL'', VHost ''method'' ''<bound method RLMEnvironment._final>''),
      (''FINAL_VAR'', VHost ''method'' ''<bound method RLMEnvironment._final_var>''),
      (''re'', VHost ''module'' ''<module re>''),
      (''print'', VHost ''function'' ''<function RLMEnvironment.execute.<locals>.<lambda>>''),
      (''len'', VHost ''builtin_function_or_method'' ''<built-in function len>''),
      (''str'', VHost ''type'' ''<class str>''),
      (''int'', VHost ''type'' ''<class int>''),
      (''list'', VHost ''type'' ''<class list>''),
      (''dict'', VHost ''type'' ''<class dict>''),
      (''range'', VHost ''type'' ''<class range>''),
      (''enumerate'', VHost ''type'' ''<class enumerate>''),
      (''zip'', VHost ''type'' ''<class zip>''),
      (''sorted'', VHost ''builtin_function_or_method'' ''<built-in function sorted>''),
      (''min'', VHost ''builtin_function_or_method'' ''<built-in function min>''),
      (''max'', VHost ''builtin_function_or_method'' ''<built-in function max>''),
      (''sum'', VHost ''builtin_function_or_method'' ''<built-in function sum>''),
      (''True'', VBool True),
      (''False'', VBool False),
      (''None'', VNone)]"

text \<open>\<open>namespace.update(self.variables)\<close>: the persisted variables are laid over the fixed bindings.\<close>

definition build_namespace :: "RLMEnvironment \<Rightarrow> namespace" where
  "build_namespace env = fixed_namespace (env_context env) (env_query env) ++ variables env"

definition skip :: "string set" where
  "skip = {''context'', ''query'', ''llm_query'', ''FINAL'', ''FINAL_VAR'',
           ''re'', ''print'', ''len'', ''str'', ''int'', ''list'', ''dict'',
           ''range'', ''enumerate'', ''zip'', ''sorted'', ''min'', ''max'', ''sum'',
           ''True'', ''False'', ''None'', ''__builtins__''}"

definition startswith_underscore :: "string \<Rightarrow> bool" where
  "startswith_underscore name = prefix ''_'' name"

text \<open>\<open>_save_variables\<close>: every binding of the namespace whose name is kept overwrites the store.\<close>

definition save_variables :: "namespace \<Rightarrow> namespace \<Rightarrow> namespace" where
  "save_variables ns vars =
     (\<lambda>name. if name \<notin> skip \<and> \<not> startswith_underscore name
              then (case ns name of Some v \<Rightarrow> Some v | None \<Rightarrow> vars name)
              else vars name)"

text \<open>\<open>_final\<close> and \<open>_final_var\<close> raise; the exception is their result.\<close>

definition final :: "pyval \<Rightarrow> exn" where
  "final answer = FinalAnswer (py_str answer)"

definition not_found_message :: "string \<Rightarrow> string" where
  "not_found_message var_name =
     ''Error: Variable '' @ [CHR 0x27] @ var_name @ [CHR 0x27] @ '' not found''"

definition final_var :: "namespace \<Rightarrow> pyval \<Rightarrow> exn" where
  "final_var vars var_name =
     (case var_name of
        VStr name \<Rightarrow>
          (case vars name of
             Some v \<Rightarrow> FinalAnswer (py_str v)
           | None \<Rightarrow> FinalAnswer (not_found_message name))
      | _ \<Rightarrow> FinalAnswer (not_found_message (py_str var_name)))"

text \<open>Reading an expression; a name that is not bound raises \<open>NameError\<close>.\<close>

definition name_error :: "string \<Rightarrow> exn" where
  "name_error x = Exn ''NameError'' (''name '' @ [CHR 0x27] @ x @ [CHR 0x27] @ '' is not defined'')"

fun eval_expr :: "namespace \<Rightarrow> expr \<Rightarrow> exn + pyval" where
  "eval_expr ns (Lit v) = Inr v"
| "eval_expr ns (Var x) = (case ns x of Some v \<Rightarrow> Inr v | None \<Rightarrow> Inl (name_error x))"

fun eval_args :: "namespace \<Rightarrow> expr list \<Rightarrow> exn + pyval list" where
  "eval_args ns [] = Inr []"
| "eval_args ns (e # es) =
     (case eval_expr ns e of
        Inl ex \<Rightarrow> Inl ex
      | Inr v \<Rightarrow> (case eval_args ns es of Inl ex \<Rightarrow> Inl ex | Inr vs \<Rightarrow> Inr (v # vs)))"

text \<open>\<open>print(*args, file=stdout)\<close>: the texts of the arguments, separated by blanks, and a newline.\<close>

fun join_blank :: "string list \<Rightarrow> string" where
  "join_blank [] = []"
| "join_blank [s] = s"
| "join_blank (s # t # ts) = s @ '' '' @ join_blank (t # ts)"

definition print_text :: "pyval list \<Rightarrow> string" where
  "print_text vs = join_blank (map py_str vs) @ ''\<newline>''"

text \<open>
  The body of the coroutine \<open>llm_callback\<close> of engine.py, as it runs when it is run: the
  counter is incremented, the step is appended, then the model client is called. A prompt
  that is not a string fails at \<open>len(prompt)\<close>, after the counter was incremented.
\<close>

definition llm_callback :: "'s generate \<Rightarrow> pyval \<Rightarrow> 's frame \<Rightarrow> (exn + string) \<times> 's frame" where
  "llm_callback gen p fr =
     (let fr1 = fr\<lparr>f_llm_calls := f_llm_calls fr + 1\<rparr> in
      case p of
        VStr prompt \<Rightarrow>
          (let fr2 = fr1\<lparr>f_steps := f_steps fr1 @
                       [mk_step ''llm_call''
                          (if length prompt > 200 then take 200 prompt @ ''...'' else prompt)]\<rparr>
           in case gen (f_client fr2) (''Answer concisely: '' @ prompt) of
                (Reply r, c) \<Rightarrow> (Inr r, fr2\<lparr>f_client := c\<rparr>)
              | (Failure kind msg, c) \<Rightarrow> (Inl (Exn kind msg), fr2\<lparr>f_client := c\<rparr>))
      | _ \<Rightarrow>
          (Inl (Exn ''TypeError''
                  (''object of type '' @ [CHR 0x27] @ type_name p @ [CHR 0x27] @ '' has no len()'')),
           fr1))"

text \<open>
  \<open>_llm_query\<close> calls \<open>sync_callback\<close>, which creates the coroutine \<open>llm_callback(prompt)\<close>
  and hands it to \<open>loop.run_until_complete\<close> of the current event loop. \<open>run\<close> is itself
  a coroutine, and every caller of the repository runs it on an event loop (\<open>asyncio.run\<close>
  in run_rlm.py, the server's loop in main.py); \<open>execute\<close> is called from inside it, so the
  current loop is the running one and \<open>run_until_complete\<close> raises \<open>RuntimeError\<close> before
  the body of the coroutine starts: no counter is incremented, no step is appended, the
  model client is not called.
\<close>

definition sync_callback :: "'s generate \<Rightarrow> pyval \<Rightarrow> 's frame \<Rightarrow> (exn + string) \<times> 's frame" where
  "sync_callback gen p fr = (Inl (Exn ''RuntimeError'' ''This event loop is already running''), fr)"

text \<open>
  One interaction of a fragment. \<open>vars\<close> is \<open>self.variables\<close>, which \<open>FINAL_VAR\<close> reads
  and which does not change while the fragment runs. The first component of the result is
  the exception raised, if any.
\<close>

fun exec_stmt :: "'s generate \<Rightarrow> namespace \<Rightarrow> stmt \<Rightarrow> 's frame \<Rightarrow> exn option \<times> 's frame" where
  "exec_stmt gen vars (Print es) fr =
     (case eval_args (f_namespace fr) es of
        Inl ex \<Rightarrow> (Some ex, fr)
      | Inr vs \<Rightarrow> (None, fr\<lparr>f_stdout := f_stdout fr @ print_text vs\<rparr>))"
| "exec_stmt gen vars (Assign x e) fr =
     (case eval_expr (f_namespace fr) e of
        Inl ex \<Rightarrow> (Some ex, fr)
      | Inr v \<Rightarrow> (None, fr\<lparr>f_namespace := (f_namespace fr)(x \<mapsto> v)\<rparr>))"
| "exec_stmt gen vars (LlmQuery x e) fr =
     (case eval_expr (f_namespace fr) e of
        Inl ex \<Rightarrow> (Some ex, fr)
      | Inr p \<Rightarrow>
          (case sync_callback gen p fr of
             (Inl ex, fr') \<Rightarrow> (Some ex, fr')
           | (Inr r, fr') \<Rightarrow> (None, fr'\<lparr>f_namespace := (f_namespace fr')(x \<mapsto> VStr r)\<rparr>)))"
| "exec_stmt gen vars (FINAL e) fr =
     (case eval_expr (f_namespace fr) e of
        Inl ex \<Rightarrow> (Some ex, fr)
      | Inr v \<Rightarrow> (Some (final v), fr))"
| "exec_stmt gen vars (FINAL_VAR e) fr =
     (case eval_expr (f_namespace fr) e of
        Inl ex \<Rightarrow> (Some ex, fr)
      | Inr v \<Rightarrow> (Some (final_var vars v), fr))"
| "exec_stmt gen vars (Raise kind msg) fr = (Some (Exn kind msg), fr)"

fun exec_block :: "'s generate \<Rightarrow> namespace \<Rightarrow> stmt list \<Rightarrow> 's frame \<Rightarrow> exn option \<times> 's frame" where
  "exec_block gen vars [] fr = (None, fr)"
| "exec_block gen vars (s # ss) fr =
     (case exec_stmt gen vars s fr of
        (None, fr') \<Rightarrow> exec_block gen vars ss fr'
      | (Some ex, fr') \<Rightarrow> (Some ex, fr'))"

section \<open>Orchestration engine (engine.py)\<close>

text \<open>The local state of \<open>RLMEngine.run\<close>, with the environment of the run and the client's state.\<close>

record 's run_state =
  rs_steps :: "RLMStep list"
  rs_llm_calls :: int
  rs_client :: 's
  rs_env :: RLMEnvironment
  rs_prompt :: string

definition start_frame :: "'s run_state \<Rightarrow> 's frame" where
  "start_frame st =
     \<lparr>f_namespace = build_namespace (rs_env st), f_stdout = [],
      f_steps = rs_steps st, f_llm_calls = rs_llm_calls st, f_client = rs_client st\<rparr>"

definition leave_frame :: "'s frame \<Rightarrow> 's run_state \<Rightarrow> 's run_state" where
  "leave_frame fr st =
     st\<lparr>rs_steps := f_steps fr, rs_llm_calls := f_llm_calls fr, rs_client := f_client fr\<rparr>"

text \<open>
  \<open>RLMEnvironment.execute\<close>: the variables are saved only when \<open>exec\<close> returns; a
  \<open>FinalAnswer\<close> is re-raised (\<open>Inl\<close>); any other exception becomes the output text.
\<close>

definition execute :: "'s generate \<Rightarrow> parser \<Rightarrow> string \<Rightarrow> 's run_state \<Rightarrow> (exn + string) \<times> 's run_state" where
  "execute gen parse code st =
     (case exec_block gen (variables (rs_env st)) (parse code) (start_frame st) of
        (None, fr) \<Rightarrow>
          (Inr (f_stdout fr),
           (leave_frame fr st)\<lparr>rs_env := (rs_env st)\<lparr>variables :=
              save_variables (f_namespace fr) (variables (rs_env st))\<rparr>\<rparr>)
      | (Some (FinalAnswer a), fr) \<Rightarrow> (Inl (FinalAnswer a), leave_frame fr st)
      | (Some (Exn kind msg), fr) \<Rightarrow>
          (Inr (''Error: '' @ kind @ '': '' @ msg), leave_frame fr st))"

text \<open>
  \<open>_extract_code\<close>. \<open>regex_fenced opener text\<close> is group 1 of
  \<open>re.search(opener + r'\s*(.*?)```', text, re.DOTALL)\<close>: the leftmost opener, the
  white space after it, and the text up to the next closing fence.
\<close>

definition regex_fenced :: "string \<Rightarrow> string \<Rightarrow> string option" where
  "regex_fenced opener text =
     (case partition_sub opener text of
        None \<Rightarrow> None
      | Some (b, rest) \<Rightarrow>
          (case partition_sub ''```'' (dropWhile isspace rest) of
             None \<Rightarrow> None
           | Some (body, a) \<Rightarrow> Some body))"

definition code_keywords :: "string list" where
  "code_keywords = [''print'', ''for'', ''if'', ''def'', ''='', ''FINAL'']"

definition extract_code :: "string \<Rightarrow> string option" where
  "extract_code text =
     (case regex_fenced ''```python'' text of
        Some g \<Rightarrow> Some (strip g)
      | None \<Rightarrow>
          (case regex_fenced ''```'' text of
             Some g \<Rightarrow>
               (let code = strip g in
                if list_ex (contains code) code_keywords then Some code else None)
           | None \<Rightarrow> None))"

definition SYSTEM_PROMPT :: "nat \<Rightarrow> string \<Rightarrow> string" where
  \<open>SYSTEM_PROMPT context_len q =
     ''You have access to a Python REPL to answer questions about documents.\<newline>'' @
     ''\<newline>'' @
     ''## Available Variables\<newline>'' @
     ''- `context` - The document text (may be very large)\<newline>'' @
     ''- `query` - The user's question\<newline>'' @
     ''\<newline>'' @
     ''## Available Functions\<newline>'' @
     ''- `print(...)` - See output\<newline>'' @
     ''- `llm_query(prompt)` - Ask a sub-question to another LLM\<newline>'' @
     ''- `FINAL(answer)` - Return your final answer (REQUIRED when done)\<newline>'' @
     ''- `re` - Regex module for searching\<newline>'' @
     ''\<newline>'' @
     ''## Strategy\<newline>'' @
     ''1. First, check the context size: `print(len(context))`\<newline>'' @
     ''2. Peek at the content: `print(context[:1000])`\<newline>'' @
     ''3. Search if needed: `print(re.findall(r'pattern', context))`\<newline>'' @
     ''4. For complex tasks, use llm_query() on chunks\<newline>'' @
     ''5. Call FINAL("your answer") when done\<newline>'' @
     ''\<newline>'' @
     ''## Rules\<newline>'' @
     ''- Write Python code in ```python blocks\<newline>'' @
     ''- Always end with FINAL() when you have the answer\<newline>'' @
     ''- Don't try to read all context at once if it's large\<newline>'' @
     ''\<newline>'' @
     ''## Your Task\<newline>'' @
     ''Context length: '' @ str_of_nat context_len @ '' characters\<newline>'' @
     ''Question: '' @ q @ ''\<newline>'' @
     ''\<newline>'' @
     ''Start by examining the context, then answer the question.\<newline>''\<close>

definition next_prompt :: "string \<Rightarrow> string" where
  "next_prompt output =
     ''Previous code output:\<newline>```\<newline>'' @
     (if output \<noteq> [] then output else ''(no output)'') @
     ''\<newline>```\<newline>\<newline>'' @
     ''Continue analyzing. Remember to call FINAL(answer) when you have the answer.\<newline>'' @
     ''Write your next code block:''"

definition initial_state :: "string \<Rightarrow> string \<Rightarrow> 's \<Rightarrow> 's run_state" where
  "initial_state q ctx c0 =
     \<lparr>rs_steps = [], rs_llm_calls = 0, rs_client = c0,
      rs_env = new_environment ctx q, rs_prompt = SYSTEM_PROMPT (length ctx) q\<rparr>"

definition answer_result :: "string \<Rightarrow> string \<Rightarrow> string \<Rightarrow> RLMStep list \<Rightarrow> int \<Rightarrow> RLMResult" where
  "answer_result q ctx answer stps calls =
     \<lparr>query = q, context_length = int (length ctx), final_answer = answer,
      steps = stps, total_llm_calls = calls, success = True, error = None\<rparr>"

definition error_result :: "string \<Rightarrow> string \<Rightarrow> exn \<Rightarrow> RLMStep list \<Rightarrow> int \<Rightarrow> RLMResult" where
  "error_result q ctx e stps calls =
     \<lparr>query = q, context_length = int (length ctx),
      final_answer = ''[Error: '' @ exn_str e @ '']'',
      steps = stps, total_llm_calls = calls, success = False, error = Some (exn_str e)\<rparr>"

definition max_iterations_result :: "string \<Rightarrow> string \<Rightarrow> RLMStep list \<Rightarrow> int \<Rightarrow> RLMResult" where
  "max_iterations_result q ctx stps calls =
     \<lparr>query = q, context_length = int (length ctx),
      final_answer = ''[Reached max iterations without final answer]'',
      steps = stps, total_llm_calls = calls, success = False,
      error = Some ''Max iterations reached''\<rparr>"

text \<open>
  One pass through the body of the main loop: it either returns from \<open>run\<close> (with the
  result and the state in which it leaves the model client) or goes on to the next pass.
\<close>

datatype 's progress = Return RLMResult 's | Continue "'s run_state"

definition iteration :: "'s generate \<Rightarrow> parser \<Rightarrow> string \<Rightarrow> string \<Rightarrow> 's run_state \<Rightarrow> 's progress" where
  "iteration gen parse q ctx st =
     (let calls = rs_llm_calls st + 1 in
      case gen (rs_client st) (rs_prompt st) of
        (Failure kind msg, c) \<Rightarrow> Return (error_result q ctx (Exn kind msg) (rs_steps st) calls) c
      | (Reply response, c) \<Rightarrow>
          (case extract_code response of
             None \<Rightarrow>
               Return (answer_result q ctx response
                         (rs_steps st @ [mk_step ''final'' response]) calls) c
           | Some code \<Rightarrow>
               if code = [] then
                 Return (answer_result q ctx response
                           (rs_steps st @ [mk_step ''final'' response]) calls) c
               else
                 (case execute gen parse code
                         (st\<lparr>rs_steps := rs_steps st @ [mk_step ''code'' code],
                             rs_llm_calls := calls, rs_client := c\<rparr>) of
                    (Inr output, st') \<Rightarrow>
                      Continue (st'\<lparr>rs_steps := rs_steps st' @ [mk_step ''output'' output],
                                    rs_prompt := next_prompt output\<rparr>)
                  | (Inl (FinalAnswer a), st') \<Rightarrow>
                      Return (answer_result q ctx a
                                (rs_steps st' @ [mk_step ''final'' a]) (rs_llm_calls st'))
                             (rs_client st')
                  | (Inl (Exn kind msg), st') \<Rightarrow>
                      Return (error_result q ctx (Exn kind msg) (rs_steps st') (rs_llm_calls st'))
                             (rs_client st'))))"

fun run_loop :: "'s generate \<Rightarrow> parser \<Rightarrow> string \<Rightarrow> string \<Rightarrow> nat \<Rightarrow> 's run_state \<Rightarrow> RLMResult \<times> 's" where
  "run_loop gen parse q ctx 0 st =
     (max_iterations_result q ctx (rs_steps st) (rs_llm_calls st), rs_client st)"
| "run_loop gen parse q ctx (Suc n) st =
     (case iteration gen parse q ctx st of
        Return r c \<Rightarrow> (r, c)
      | Continue st' \<Rightarrow> run_loop gen parse q ctx n st')"

text \<open>
  \<open>RLMEngine(llm_client, max_iterations).run(query, context)\<close>; \<open>range(max_iterations)\<close>
  is empty for a bound below one.
\<close>

definition run :: "'s generate \<Rightarrow> parser \<Rightarrow> int \<Rightarrow> string \<Rightarrow> string \<Rightarrow> 's \<Rightarrow> RLMResult \<times> 's" where
  "run gen parse max_iterations q ctx c0 =
     run_loop gen parse q ctx (nat max_iterations) (initial_state q ctx c0)"

text \<open>
  The state after \<open>k\<close> passes none of which returned, \<open>None\<close> if one of them did.
\<close>

fun rounds :: "'s generate \<Rightarrow> parser \<Rightarrow> string \<Rightarrow> string \<Rightarrow> nat \<Rightarrow> 's run_state \<Rightarrow> 's run_state option" where
  "rounds gen parse q ctx 0 st = Some st"
| "rounds gen parse q ctx (Suc k) st =
     (case iteration gen parse q ctx st of
        Return r c \<Rightarrow> None
      | Continue st' \<Rightarrow> rounds gen parse q ctx k st')"


section \<open>Configuration and wiring (config.py, main.py)\<close>

record RLMConfig =
  cfg_max_iterations :: int
  cfg_max_depth :: int
  cfg_max_output_length :: int

definition default_RLMConfig :: RLMConfig where
  "default_RLMConfig =
     \<lparr>cfg_max_iterations = 10, cfg_max_depth = 3, cfg_max_output_length = 10000\<rparr>"

text \<open>
  main.py builds the engine as \<open>RLMEngine(llm_client, max_iterations=settings.rlm.max_iterations)\<close>
  and answers a request with \<open>rlm_engine.run(request.query, context)\<close>.
\<close>

definition configured_run :: "'s generate \<Rightarrow> parser \<Rightarrow> RLMConfig \<Rightarrow> string \<Rightarrow> string \<Rightarrow> 's \<Rightarrow> RLMResult \<times> 's" where
  "configured_run gen parse cfg q ctx c0 = run gen parse (cfg_max_iterations cfg) q ctx c0"

section \<open>Auxiliary notions for the statements\<close>




text \<open>
  A scripted model client and the fragments it writes, for concrete runs: its state counts
  the calls made so far. The first reply binds \<open>x\<close>, every later reply prints \<open>x\<close> and
  terminates with it.
\<close>

definition demo_generate :: "nat generate" where
  "demo_generate s p =
     (if s = 0 then (Reply ''Let me look.\<newline>```python\<newline>x = 1\<newline>```'', 1)
      else (Reply ''```python\<newline>print(x)\<newline>FINAL(x)\<newline>```'', Suc s))"

definition demo_parse :: parser where
  \<open>demo_parse code =
     (if code = ''x = 1'' then [Assign ''x'' (Lit (VInt 1))]
      else if code = ''print(x)\<newline>FINAL(x)'' then [Print [Var ''x''], FINAL (Var ''x'')]
      else if code = ''theme = llm_query("ping")\<newline>print(theme)''
      then [LlmQuery ''theme'' (Lit (VStr ''ping'')), Print [Var ''theme'']]
      else if code = ''print(query)'' then [Print [Var ''query'']]
      else if code = ''_tmp = 1'' then [Assign ''_tmp'' (Lit (VInt 1))]
      else if code = ''x = 1\<newline>raise ValueError("boom")''
      then [Assign ''x'' (Lit (VInt 1)), Raise ''ValueError'' ''boom'']
      else if code = ''FINAL_VAR("x")'' then [FINAL_VAR (Lit (VStr ''x''))]
      else if code = ''x = 1\<newline>FINAL_VAR("x")''
      then [Assign ''x'' (Lit (VInt 1)), FINAL_VAR (Lit (VStr ''x''))]
      else [Raise ''SyntaxError'' ''invalid syntax''])\<close>

text \<open>A client without state that gives the same reply to every prompt.\<close>

definition scripted :: "string \<Rightarrow> 's generate" where
  "scripted r s p = (Reply r, s)"

section \<open>Theorems\<close>

lemma isspace_simps:
  "isspace CHR ''a'' = False" "isspace CHR ''b'' = False" "isspace CHR 0x0A = True"
  by (simp_all add: isspace_def)

text \<open>
  C7. The summarizer is meant to split the input on paragraph boundaries into chunks of at
  most \<open>chunk_size\<close> characters, a paragraph being emitted whole only when it alone is
  longer than \<open>chunk_size\<close>. The test of \<open>_split\<close> adds the lengths of \<open>current\<close> and
  of the next paragraph and leaves out the two characters of the separator it then
  inserts: with \<open>chunk_size = 10\<close> the two paragraphs of five characters, neither longer
  than the limit, are joined into one chunk of twelve characters.
\<close>

theorem split_chunk_exceeds_chunk_size:
  "summarizer_split 10 ''aaaaa\<newline>\<newline>bbbbb'' = [''aaaaa\<newline>\<newline>bbbbb'']
   \<and> split_paragraphs ''aaaaa\<newline>\<newline>bbbbb'' = [''aaaaa'', ''bbbbb'']
   \<and> int (length (hd (summarizer_split 10 ''aaaaa\<newline>\<newline>bbbbb''))) = 12
   \<and> map length (split_paragraphs ''aaaaa\<newline>\<newline>bbbbb'') = [5, 5]"
  by (simp add: summarizer_split_def strip_def lstrip_def rstrip_def isspace_simps)

subsection \<open>Steps appended while a fragment runs\<close>















lemma run_loop_rounds:
  "rounds gen parse q ctx k st = Some st' \<Longrightarrow>
     run_loop gen parse q ctx (k + n) st = run_loop gen parse q ctx n st'"
proof (induction k arbitrary: st)
  case 0
  then show ?case by simp
next
  case (Suc k)
  from Suc.prems obtain st1 where
    i: "iteration gen parse q ctx st = Continue st1" and r: "rounds gen parse q ctx k st1 = Some st'"
    by (auto split: progress.splits)
  from Suc.IH [OF r] i show ?case by simp
qed


subsection \<open>The main loop\<close>

lemma exec_block_append:
  "exec_block gen vars pre fr0 = (None, fr) \<Longrightarrow>
     exec_block gen vars (pre @ ss) fr0 = exec_block gen vars ss fr"
proof (induction pre arbitrary: fr0)
  case Nil
  then show ?case by simp
next
  case (Cons s pre)
  obtain r1 fr1 where s1: "exec_stmt gen vars s fr0 = (r1, fr1)"
    by (cases "exec_stmt gen vars s fr0")
  with Cons.prems have "r1 = None" "exec_block gen vars pre fr1 = (None, fr)"
    by (auto split: option.splits)
  with Cons.IH [of fr1] s1 show ?case by simp
qed

lemma run_reaches:
  assumes "rounds gen parse q ctx j (initial_state q ctx c0) = Some st"
    and "int j < max_iterations"
  shows "run gen parse max_iterations q ctx c0 =
           (case iteration gen parse q ctx st of
              Return r c \<Rightarrow> (r, c)
            | Continue st' \<Rightarrow> run_loop gen parse q ctx (nat max_iterations - Suc j) st')"
proof -
  from assms(2) have "nat max_iterations = j + Suc (nat max_iterations - Suc j)" by linarith
  then have "run gen parse max_iterations q ctx c0 =
      run_loop gen parse q ctx (j + Suc (nat max_iterations - Suc j)) (initial_state q ctx c0)"
    by (simp add: run_def)
  also have "\<dots> = run_loop gen parse q ctx (Suc (nat max_iterations - Suc j)) st"
    by (rule run_loop_rounds [OF assms(1)])
  finally show ?thesis by simp
qed

text \<open>
  C8. Whenever a reply of the model client holds no extractable code (\<open>_extract_code\<close>
  finds neither a tagged block nor a generic fenced block with a keyword), the whole reply
  is the final answer: a \<open>final\<close> step is appended to the steps gathered so far and the
  run returns at once with \<open>success = True\<close>, having made one more call and none
  after it. In particular a client that answers in plain prose ends the run in the first
  pass, after exactly one call.
\<close>

theorem no_code_is_final_answer:
  assumes "rounds gen parse q ctx j (initial_state q ctx c0) = Some st"
    and "int j < max_iterations"
    and "gen (rs_client st) (rs_prompt st) = (Reply response, c)"
    and "extract_code response = None"
  shows "run gen parse max_iterations q ctx c0 =
           (\<lparr>query = q, context_length = int (length ctx), final_answer = response,
             steps = rs_steps st @ [mk_step ''final'' response],
             total_llm_calls = rs_llm_calls st + 1, success = True, error = None\<rparr>, c)"
proof -
  from assms(3,4) have "iteration gen parse q ctx st =
      Return (answer_result q ctx response (rs_steps st @ [mk_step ''final'' response])
                (rs_llm_calls st + 1)) c"
    by (simp add: iteration_def)
  with run_reaches [OF assms(1,2)] show ?thesis
    by (simp add: answer_result_def)
qed


subsection \<open>Runs that exhaust the budget\<close>










subsection \<open>Termination by variable, faults, persistence\<close>

lemma iteration_Return_final:
  assumes "gen (rs_client st) (rs_prompt st) = (Reply response, c)"
    and "extract_code response = Some code" and "code \<noteq> []"
    and "exec_block gen (variables (rs_env st)) (parse code)
           (start_frame (st\<lparr>rs_steps := rs_steps st @ [mk_step ''code'' code],
                            rs_llm_calls := rs_llm_calls st + 1, rs_client := c\<rparr>))
         = (Some (FinalAnswer a), fr)"
  shows "iteration gen parse q ctx st =
           Return (answer_result q ctx a (f_steps fr @ [mk_step ''final'' a]) (f_llm_calls fr))
                  (f_client fr)"
  using assms by (simp add: iteration_def execute_def Let_def leave_frame_def)

lemma exec_block_reaches_FINAL_VAR:
  assumes "exec_block gen vars pre fr0 = (None, fr)"
    and "eval_expr (f_namespace fr) e = Inr (VStr x)"
  shows "exec_block gen vars (pre @ FINAL_VAR e # post) fr0 =
           (Some (FinalAnswer (case vars x of Some v \<Rightarrow> py_str v | None \<Rightarrow> not_found_message x)), fr)"
  using exec_block_append [OF assms(1), of "FINAL_VAR e # post"] assms(2)
  by (simp add: final_var_def split: option.splits)


text \<open>
  C10. \<open>FINAL_VAR("x")\<close> reads the variables persisted by the fragments that completed
  before, not the namespace of the running fragment: when \<open>x\<close> is not persisted yet and
  the running fragment has bound \<open>x\<close> before the call, the run ends with the not-found
  message and not with the value of \<open>x\<close>.
\<close>

theorem final_var_misses_current_fragment:
  assumes "gen (rs_client st) (rs_prompt st) = (Reply response, c)"
    and "extract_code response = Some code" and "code \<noteq> []"
    and "parse code = pre @ FINAL_VAR (Lit (VStr x)) # post"
    and "exec_block gen (variables (rs_env st)) pre
           (start_frame (st\<lparr>rs_steps := rs_steps st @ [mk_step ''code'' code],
                            rs_llm_calls := rs_llm_calls st + 1, rs_client := c\<rparr>)) = (None, fr)"
    and "variables (rs_env st) x = None"
    and "f_namespace fr x = Some v"
  shows "iteration gen parse q ctx st =
           Return \<lparr>query = q, context_length = int (length ctx),
                    final_answer = ''Error: Variable '' @ [CHR 0x27] @ x @ [CHR 0x27] @ '' not found'',
                    steps = f_steps fr @ [mk_step ''final''
                              (''Error: Variable '' @ [CHR 0x27] @ x @ [CHR 0x27] @ '' not found'')],
                    total_llm_calls = f_llm_calls fr, success = True, error = None\<rparr>
                  (f_client fr)"
proof -
  have ev: "eval_expr (f_namespace fr) (Lit (VStr x)) = Inr (VStr x)" by simp
  have "exec_block gen (variables (rs_env st)) (parse code)
           (start_frame (st\<lparr>rs_steps := rs_steps st @ [mk_step ''code'' code],
                            rs_llm_calls := rs_llm_calls st + 1, rs_client := c\<rparr>))
         = (Some (FinalAnswer (not_found_message x)), fr)"
    using exec_block_reaches_FINAL_VAR [OF assms(5) ev, of post] assms(4,6)
    by simp
  from iteration_Return_final [where parse = parse and code = code, OF assms(1,2,3) this]
  show ?thesis
    by (simp add: answer_result_def not_found_message_def)
qed


lemma fixed_namespace_skip: "name \<notin> skip \<Longrightarrow> fixed_namespace ctx q name = None"
  by (simp add: skip_def fixed_namespace_def)

text \<open>
  C6, amended. For every name that is not a fixed binding and does not start with an
  underscore: if a fragment runs to completion and the name is bound to \<open>v\<close> at its end,
  the namespace built for the next fragment of the run binds the name to \<open>v\<close>; and the
  namespace of a fresh run does not bind the name.
\<close>

theorem kept_names_persist:
  assumes "name \<notin> skip" and "\<not> startswith_underscore name"
    and "exec_block gen (variables (rs_env st)) (parse code) (start_frame st) = (None, fr)"
    and "f_namespace fr name = Some v"
  shows "build_namespace (rs_env (snd (execute gen parse code st))) name = Some v
       \<and> build_namespace (new_environment ctx q) name = None"
  using assms
  by (simp add: execute_def build_namespace_def save_variables_def new_environment_def
        fixed_namespace_skip map_add_def)

text \<open>
  C4, amended. \<open>run\<close> takes the query and the context only; the configured
  \<open>max_depth\<close> does not reach the engine, and a run is the same under every value of it.
\<close>

theorem max_depth_is_ignored:
  "configured_run gen parse (cfg\<lparr>cfg_max_depth := d\<rparr>) q ctx c0 = configured_run gen parse cfg q ctx c0"
  by (simp add: configured_run_def)

subsection \<open>Concrete runs\<close>

lemmas text_defs = strip_def lstrip_def rstrip_def isspace_def extract_code_def regex_fenced_def
  contains_def code_keywords_def

lemmas engine_defs = run_def initial_state_def iteration_def execute_def start_frame_def
  leave_frame_def build_namespace_def new_environment_def sync_callback_def
  final_def final_var_def print_text_def mk_step_def answer_result_def error_result_def
  max_iterations_result_def




lemma prose_extract: "extract_code ''The document is about cats.'' = None"
  by (simp add: text_defs)

theorem no_code_is_final_answer_witness:
  "run (scripted ''The document is about cats.'') demo_parse 3 ''q'' ''ctx'' () =
     (\<lparr>query = ''q'', context_length = 3, final_answer = ''The document is about cats.'',
       steps = [\<lparr>step_type = ''final'', content = ''The document is about cats.'', depth = 0\<rparr>],
       total_llm_calls = 1, success = True, error = None\<rparr>, ())"
proof -
  have h1: "rounds (scripted ''The document is about cats.'') demo_parse ''q'' ''ctx'' 0 (initial_state ''q'' ''ctx'' ())
              = Some (initial_state ''q'' ''ctx'' ())"
    by simp
  have h2: "int 0 < 3" by simp
  have h3: "scripted ''The document is about cats.'' (rs_client (initial_state ''q'' ''ctx'' ()))
              (rs_prompt (initial_state ''q'' ''ctx'' ()))
            = (Reply ''The document is about cats.'', ())"
    by (simp add: scripted_def)
  from no_code_is_final_answer [OF h1 h2 h3 prose_extract]
  show ?thesis by (simp add: initial_state_def mk_step_def)
qed

lemmas demo_defs = engine_defs demo_generate_def demo_parse_def scripted_def Let_def
  map_add_def save_variables_def skip_def startswith_underscore_def







theorem kept_names_persist_witness:
  "build_namespace (rs_env (snd (execute (scripted []) demo_parse ''x = 1''
       (initial_state ''q'' ''ctx'' ())))) ''x'' = Some (VInt 1)
   \<and> build_namespace (new_environment ''ctx'' ''q'') ''x'' = None"
proof -
  let ?gen = "scripted [] :: unit generate"
  define st where "st = initial_state ''q'' ''ctx'' ()"
  define fr where "fr = snd (exec_block ?gen (variables (rs_env st)) (demo_parse ''x = 1'') (start_frame st))"
  have h1: "''x'' \<notin> skip" by (simp add: skip_def)
  have h2: "\<not> startswith_underscore ''x''" by (simp add: startswith_underscore_def)
  have f3: "fst (exec_block ?gen (variables (rs_env st)) (demo_parse ''x = 1'') (start_frame st)) = None"
    by (simp add: demo_parse_def)
  have h3: "exec_block ?gen (variables (rs_env st)) (demo_parse ''x = 1'') (start_frame st) = (None, fr)"
    using f3 unfolding fr_def by (simp only: prod_eq_iff fst_conv snd_conv simp_thms)
  have h4: "f_namespace fr ''x'' = Some (VInt 1)"
    unfolding fr_def by (simp add: demo_parse_def)
  from kept_names_persist [where parse = demo_parse and code = "''x = 1''" and ctx = "''ctx''"
      and q = "''q''", OF h1 h2 h3 h4]
  show ?thesis by (simp only: st_def)
qed

text \<open>
  C6 as stated fails at two inputs. The fragment \<open>_tmp = 1\<close> binds a name that is no
  fixed binding and completes, yet \<open>_save_variables\<close> leaves out the names that start
  with an underscore, and the next namespace does not bind \<open>_tmp\<close>. The fragment
  \<open>x = 1; raise ValueError("boom")\<close> binds \<open>x\<close> and then raises, so that the variables
  are not saved, and the next namespace does not bind \<open>x\<close>.
\<close>

theorem underscore_or_fault_loses_binding:
  \<open>''_tmp'' \<notin> skip
   \<and> f_namespace (snd (exec_block (scripted []) Map.empty (demo_parse ''_tmp = 1'')
        (start_frame (initial_state ''q'' ''ctx'' ())))) ''_tmp'' = Some (VInt 1)
   \<and> fst (execute (scripted []) demo_parse ''_tmp = 1'' (initial_state ''q'' ''ctx'' ())) = Inr []
   \<and> build_namespace (rs_env (snd (execute (scripted []) demo_parse ''_tmp = 1''
        (initial_state ''q'' ''ctx'' ())))) ''_tmp'' = None
   \<and> ''x'' \<notin> skip
   \<and> f_namespace (snd (exec_block (scripted []) Map.empty (demo_parse ''x = 1\<newline>raise ValueError("boom")'')
        (start_frame (initial_state ''q'' ''ctx'' ())))) ''x'' = Some (VInt 1)
   \<and> fst (execute (scripted []) demo_parse ''x = 1\<newline>raise ValueError("boom")''
        (initial_state ''q'' ''ctx'' ())) = Inr ''Error: ValueError: boom''
   \<and> build_namespace (rs_env (snd (execute (scripted []) demo_parse ''x = 1\<newline>raise ValueError("boom")''
        (initial_state ''q'' ''ctx'' ())))) ''x'' = None\<close>
  by (simp add: demo_defs fixed_namespace_def)

lemma final_var_x_extract:
  \<open>extract_code ''```python\<newline>x = 1\<newline>FINAL_VAR("x")\<newline>```'' = Some ''x = 1\<newline>FINAL_VAR("x")''\<close>
  by (simp add: text_defs)

theorem final_var_misses_current_fragment_witness:
  \<open>iteration (scripted ''```python\<newline>x = 1\<newline>FINAL_VAR("x")\<newline>```'') demo_parse ''q'' ''ctx''
      (initial_state ''q'' ''ctx'' ()) =
     Return \<lparr>query = ''q'', context_length = 3,
              final_answer = ''Error: Variable '' @ [CHR 0x27] @ ''x'' @ [CHR 0x27] @ '' not found'',
              steps = [mk_step ''code'' ''x = 1\<newline>FINAL_VAR("x")'',
                       mk_step ''final'' (''Error: Variable '' @ [CHR 0x27] @ ''x'' @ [CHR 0x27] @ '' not found'')],
              total_llm_calls = 1, success = True, error = None\<rparr> ()\<close>
proof -
  let ?gen = \<open>scripted ''```python\<newline>x = 1\<newline>FINAL_VAR("x")\<newline>```'' :: unit generate\<close>
  define st where "st = initial_state ''q'' ''ctx'' ()"
  define fr where \<open>fr = snd (exec_block ?gen (variables (rs_env st)) [Assign ''x'' (Lit (VInt 1))]
      (start_frame (st\<lparr>rs_steps := rs_steps st @ [mk_step ''code'' ''x = 1\<newline>FINAL_VAR("x")''],
                       rs_llm_calls := rs_llm_calls st + 1, rs_client := ()\<rparr>)))\<close>
  have h1: \<open>?gen (rs_client st) (rs_prompt st) = (Reply ''```python\<newline>x = 1\<newline>FINAL_VAR("x")\<newline>```'', ())\<close>
    by (simp add: scripted_def)
  have h3: \<open>''x = 1\<newline>FINAL_VAR("x")'' \<noteq> []\<close> by simp
  have h4: \<open>demo_parse ''x = 1\<newline>FINAL_VAR("x")'' = [Assign ''x'' (Lit (VInt 1))] @ FINAL_VAR (Lit (VStr ''x'')) # []\<close>
    by (simp add: demo_parse_def)
  have h5: \<open>exec_block ?gen (variables (rs_env st)) [Assign ''x'' (Lit (VInt 1))]
      (start_frame (st\<lparr>rs_steps := rs_steps st @ [mk_step ''code'' ''x = 1\<newline>FINAL_VAR("x")''],
                       rs_llm_calls := rs_llm_calls st + 1, rs_client := ()\<rparr>)) = (None, fr)\<close>
    by (simp add: fr_def)
  have h6: "variables (rs_env st) ''x'' = None"
    by (simp add: st_def initial_state_def new_environment_def)
  have h7: "f_namespace fr ''x'' = Some (VInt 1)"
    by (simp add: fr_def)
  have fs: \<open>f_steps fr = [mk_step ''code'' ''x = 1\<newline>FINAL_VAR("x")'']\<close>
    and fc: "f_llm_calls fr = 1"
    unfolding fr_def st_def by (simp_all add: start_frame_def initial_state_def)
  from final_var_misses_current_fragment [where parse = demo_parse and q = "''q''" and ctx = "''ctx''",
      OF h1 final_var_x_extract h3 h4 h5 h6 h7]
  show ?thesis unfolding fs fc st_def by simp
qed




lemma sub_query_extract:
  \<open>extract_code ''```python\<newline>theme = llm_query("ping")\<newline>print(theme)\<newline>```''
     = Some ''theme = llm_query("ping")\<newline>print(theme)''\<close>
  by (simp add: text_defs)

text \<open>
  C3. A call of \<open>llm_query\<close> in a fragment is to add one to the counter of calls and to
  append one \<open>llm_call\<close> step at depth 1 (base.py: \<open>depth\<close> is 0 for the main loop and 1
  or more for sub-calls). In the run below, with one pass, the fragment calls
  \<open>llm_query("ping")\<close>: \<open>sync_callback\<close> raises before the body of \<open>llm_callback\<close> starts,
  so that the counter stays at 1, no step is appended, and the output of the fragment is
  the text of the \<open>RuntimeError\<close>. And the body itself, where it is run, adds one to the
  counter and appends one step, but builds the step without a depth, at the default 0.
\<close>

theorem sub_query_raises_and_depth_is_zero:
  \<open>steps (fst (run (scripted ''```python\<newline>theme = llm_query("ping")\<newline>print(theme)\<newline>```'')
                   demo_parse 1 ''q'' ''ctx'' ())) =
     [\<lparr>step_type = ''code'', content = ''theme = llm_query("ping")\<newline>print(theme)'', depth = 0\<rparr>,
      \<lparr>step_type = ''output'', content = ''Error: RuntimeError: This event loop is already running'',
        depth = 0\<rparr>]
   \<and> total_llm_calls (fst (run (scripted ''```python\<newline>theme = llm_query("ping")\<newline>print(theme)\<newline>```'')
                   demo_parse 1 ''q'' ''ctx'' ())) = 1
   \<and> f_llm_calls (snd (llm_callback gen (VStr ''ping'') fr)) = f_llm_calls fr + 1
   \<and> f_steps (snd (llm_callback gen (VStr ''ping'') fr)) =
       f_steps fr @ [\<lparr>step_type = ''llm_call'', content = ''ping'', depth = 0\<rparr>]\<close>
proof -
  have body: \<open>f_llm_calls (snd (llm_callback gen (VStr ''ping'') fr)) = f_llm_calls fr + 1
     \<and> f_steps (snd (llm_callback gen (VStr ''ping'') fr)) =
         f_steps fr @ [\<lparr>step_type = ''llm_call'', content = ''ping'', depth = 0\<rparr>]\<close>
    by (cases "gen (f_client fr) (''Answer concisely: '' @ ''ping'')")
       (auto simp: llm_callback_def Let_def mk_step_def split: reply.splits)
  have run1: \<open>steps (fst (run (scripted ''```python\<newline>theme = llm_query("ping")\<newline>print(theme)\<newline>```'')
                   demo_parse 1 ''q'' ''ctx'' ())) =
     [\<lparr>step_type = ''code'', content = ''theme = llm_query("ping")\<newline>print(theme)'', depth = 0\<rparr>,
      \<lparr>step_type = ''output'', content = ''Error: RuntimeError: This event loop is already running'',
        depth = 0\<rparr>]
   \<and> total_llm_calls (fst (run (scripted ''```python\<newline>theme = llm_query("ping")\<newline>print(theme)\<newline>```'')
                   demo_parse 1 ''q'' ''ctx'' ())) = 1\<close>
    by (simp add: demo_defs sub_query_extract)
  from run1 body show ?thesis by blast
qed

text \<open>
  C4 as stated fails: \<open>max_depth\<close> bounds nothing and singles out no error. Under a
  configuration with \<open>max_depth = 0\<close> and under one with \<open>max_depth = 3\<close> the sub-query of
  the fragment, one level below the top, has the same outcome, the \<open>RuntimeError\<close> of the
  event loop: it is neither permitted where it is within the bound nor refused with an
  error of its own where it exceeds the bound.
\<close>

theorem max_depth_changes_no_sub_query:
  \<open>cfg_max_depth (default_RLMConfig\<lparr>cfg_max_iterations := 1, cfg_max_depth := 0\<rparr>) = 0
   \<and> cfg_max_depth (default_RLMConfig\<lparr>cfg_max_iterations := 1\<rparr>) = 3
   \<and> steps (fst (configured_run (scripted ''```python\<newline>theme = llm_query("ping")\<newline>print(theme)\<newline>```'')
        demo_parse (default_RLMConfig\<lparr>cfg_max_iterations := 1, cfg_max_depth := 0\<rparr>) ''q'' ''ctx'' ())) =
     [mk_step ''code'' ''theme = llm_query("ping")\<newline>print(theme)'',
      mk_step ''output'' ''Error: RuntimeError: This event loop is already running'']
   \<and> steps (fst (configured_run (scripted ''```python\<newline>theme = llm_query("ping")\<newline>print(theme)\<newline>```'')
        demo_parse (default_RLMConfig\<lparr>cfg_max_iterations := 1\<rparr>) ''q'' ''ctx'' ())) =
     [mk_step ''code'' ''theme = llm_query("ping")\<newline>print(theme)'',
      mk_step ''output'' ''Error: RuntimeError: This event loop is already running'']\<close>
  by (simp add: demo_defs sub_query_extract configured_run_def default_RLMConfig_def)

end
